theory Spec2Isabelle
  imports Main "HOL-Library.AList"
begin

text \<open>
  The class \<^verbatim>\<open>Database\<close> of \<^verbatim>\<open>database/connection.py\<close>: configuration resolution
  (\<^verbatim>\<open>_load_config\<close>), the single connection (\<^verbatim>\<open>connect\<close>, \<^verbatim>\<open>close\<close>,
  \<^verbatim>\<open>get_cursor\<close>), the staff lookups and \<^verbatim>\<open>fetch_one\<close>. Methods take the object
  and the world outside it (driver, server, standard output) and return their result with
  the new object and world; a raised exception is the \<open>Inl\<close> of a sum. Where the class
  body defines a method twice, the later definition is the one modelled as the method.
\<close>

section \<open>Python values\<close>

text \<open>
  What \<^verbatim>\<open>json.load\<close> and \<^verbatim>\<open>os.getenv\<close> hand to the code: Python's
  \<^verbatim>\<open>None\<close>, booleans, integers, floats, strings, lists and dictionaries with string
  keys. A finite float is kept as mantissa and binary exponent (its value is
  \<open>m * 2 ^ e\<close>); \<^verbatim>\<open>NaN\<close> and the two infinities, which \<^verbatim>\<open>json.load\<close>
  accepts, are constructors of their own. A dictionary is an association list in insertion
  order, read through \<open>map_of\<close>.
\<close>

datatype pyval =
    PNone
  | PBool bool
  | PInt int
  | PFloat int int
  | PNaN
  | PInf bool
  | PStr string
  | PList "pyval list"
  | PDict "(string \<times> pyval) list"

text \<open>Truth value testing, as \<^verbatim>\<open>if x:\<close> and \<^verbatim>\<open>all(...)\<close> do it.\<close>

fun truthy :: "pyval \<Rightarrow> bool" where
  "truthy PNone = False"
| "truthy (PBool b) = b"
| "truthy (PInt i) = (i \<noteq> 0)"
| "truthy (PFloat m e) = (m \<noteq> 0)"
| "truthy PNaN = True"
| "truthy (PInf s) = True"
| "truthy (PStr s) = (s \<noteq> [])"
| "truthy (PList xs) = (xs \<noteq> [])"
| "truthy (PDict d) = (d \<noteq> [])"

text \<open>Exceptions that the modelled code raises or catches.\<close>

datatype exn =
    LoadError string
  | TypeError
  | KeyError string
  | ValueError
  | AttributeError string
  | PlainException string
  | InterfaceError
  | DriverError string
  | ConnectionError exn
  | UnicodeEncodeError

text \<open>\<^verbatim>\<open>d[key] = value\<close>: only a dictionary supports it with a string key.\<close>

fun setitem :: "pyval \<Rightarrow> string \<Rightarrow> pyval \<Rightarrow> exn + pyval" where
  "setitem (PDict d) k v = Inr (PDict (AList.update k v d))"
| "setitem other k v = Inl TypeError"

text \<open>\<^verbatim>\<open>d[key]\<close> with a string key.\<close>

fun getitem :: "pyval \<Rightarrow> string \<Rightarrow> exn + pyval" where
  "getitem (PDict d) k = (case map_of d k of None \<Rightarrow> Inl (KeyError k) | Some v \<Rightarrow> Inr v)"
| "getitem other k = Inl TypeError"

text \<open>\<^verbatim>\<open>str.upper\<close> on the ASCII letters; the code applies it to five ASCII literals.\<close>

definition upper_char :: "char \<Rightarrow> char" where
  "upper_char c =
     (case map_of (zip ''abcdefghijklmnopqrstuvwxyz'' ''ABCDEFGHIJKLMNOPQRSTUVWXYZ'') c of
        None \<Rightarrow> c
      | Some u \<Rightarrow> u)"

definition upper :: "string \<Rightarrow> string" where
  "upper s = map upper_char s"

section \<open>The process environment, the file system, standard output\<close>

type_synonym environ = "string \<Rightarrow> string option"

definition getenv :: "environ \<Rightarrow> string \<Rightarrow> pyval" where
  "getenv env name = (case env name of None \<Rightarrow> PNone | Some v \<Rightarrow> PStr v)"

definition getenv_default :: "environ \<Rightarrow> string \<Rightarrow> string \<Rightarrow> pyval" where
  "getenv_default env name dflt = (case env name of None \<Rightarrow> PStr dflt | Some v \<Rightarrow> PStr v)"

text \<open>A path is its list of components; \<^verbatim>\<open>Path('.')\<close> has none.\<close>

type_synonym path = "string list"

text \<open>
  What the \<^verbatim>\<open>try\<close> body meets at a candidate path: no file (\<^verbatim>\<open>exists()\<close> is
  false), an exception from \<^verbatim>\<open>exists\<close>, \<^verbatim>\<open>open\<close> or \<^verbatim>\<open>json.load\<close>, or
  the parsed value.
\<close>

datatype file_state = Missing | Unreadable string | Parsed pyval

type_synonym filesystem = "path \<Rightarrow> file_state"

record sysinfo =
  meipass :: "path option"
  file_parent :: path
  executable_parent :: path

datatype log =
    DebugLoaded path
  | WarnCouldNotLoad path exn
  | WarnFallback
  | InfoConnected
  | ErrorConnectFailed exn
  | InfoClosed
  | ErrorUserName exn
  | ErrorStaffName pyval exn
  | ErrorFetchOne exn

section \<open>The Database object and the driver's side of the world\<close>

text \<open>
  \<^verbatim>\<open>self.connection\<close> is \<^verbatim>\<open>None\<close> or a connection object, named by the number the
  driver gave it; \<^verbatim>\<open>self._config\<close> is a Python value, \<^verbatim>\<open>None\<close> at first.
\<close>

record database =
  connection :: "nat option"
  cached_config :: pyval

text \<open>
  The world outside the object: how many connections the driver has opened (the next
  handle), which handles report \<^verbatim>\<open>closed\<close>, the statements sent to the server, and
  what was printed.
\<close>

record world =
  opened :: nat
  closed :: "nat \<Rightarrow> bool"
  queries :: "(string \<times> pyval list) list"
  stdout :: "log list"

definition print :: "log \<Rightarrow> world \<Rightarrow> world" where
  "print l w = w\<lparr>stdout := stdout w @ [l]\<rparr>"

definition init :: database where
  "init = \<lparr>connection = None, cached_config = PNone\<rparr>"

text \<open>A world in which nothing has happened yet, and a system layout, for the examples.\<close>

definition world0 :: world where
  "world0 = \<lparr>opened = 0, closed = (\<lambda>h. False), queries = [], stdout = []\<rparr>"

definition sys0 :: sysinfo where
  "sys0 = \<lparr>meipass = None, file_parent = [''app'', ''database''], executable_parent = [''usr'', ''bin'']\<rparr>"

section \<open>Configuration resolution\<close>

definition config_keys :: "string list" where
  "config_keys = [''dbname'', ''user'', ''password'', ''host'', ''port'']"

definition env_config :: "environ \<Rightarrow> (string \<times> pyval) list" where
  "env_config env =
     [(''dbname'', getenv env ''DB_NAME''),
      (''user'', getenv env ''DB_USER''),
      (''password'', getenv env ''DB_PASSWORD''),
      (''host'', getenv env ''DB_HOST''),
      (''port'', getenv_default env ''DB_PORT'' ''5432'')]"

definition possible_paths :: "sysinfo \<Rightarrow> path list" where
  "possible_paths si =
     [(case meipass si of None \<Rightarrow> [] | Some p \<Rightarrow> p) @ [''database'', ''config.json''],
      file_parent si @ [''config.json''],
      executable_parent si @ [''database'', ''config.json''],
      executable_parent si @ [''config.json'']]"

text \<open>The loop over the five keys that lets the environment overwrite the file's fields.\<close>

fun merge_env :: "environ \<Rightarrow> string list \<Rightarrow> pyval \<Rightarrow> exn + pyval" where
  "merge_env env [] file_config = Inr file_config"
| "merge_env env (key # keys) file_config =
     (if truthy (getenv env (''DB_'' @ upper key))
      then (case setitem file_config key (getenv env (''DB_'' @ upper key)) of
              Inl e \<Rightarrow> Inl e
            | Inr file_config' \<Rightarrow> merge_env env keys file_config')
      else merge_env env keys file_config)"

text \<open>The body of the \<^verbatim>\<open>try\<close> for one candidate path.\<close>

definition try_path :: "environ \<Rightarrow> file_state \<Rightarrow> exn + pyval option" where
  "try_path env f =
     (case f of
        Missing \<Rightarrow> Inr None
      | Unreadable msg \<Rightarrow> Inl (LoadError msg)
      | Parsed j \<Rightarrow>
          (case merge_env env config_keys j of Inl e \<Rightarrow> Inl e | Inr c \<Rightarrow> Inr (Some c)))"

fun probe_paths ::
  "environ \<Rightarrow> filesystem \<Rightarrow> path list \<Rightarrow> database \<Rightarrow> world \<Rightarrow> pyval option \<times> database \<times> world"
where
  "probe_paths env fs [] s w = (None, s, w)"
| "probe_paths env fs (p # ps) s w =
     (case try_path env (fs p) of
        Inl e \<Rightarrow> probe_paths env fs ps s (print (WarnCouldNotLoad p e) w)
      | Inr None \<Rightarrow> probe_paths env fs ps s w
      | Inr (Some c) \<Rightarrow> (Some c, s\<lparr>cached_config := c\<rparr>, print (DebugLoaded p) w))"

definition fallback_config :: pyval where
  "fallback_config =
     PDict [(''dbname'', PStr ''DB_PAPERSYNC''),
            (''user'', PStr ''postgres''),
            (''password'', PStr ''papersync2025''),
            (''host'', PStr ''localhost''),
            (''port'', PStr ''5432'')]"

definition load_config ::
  "environ \<Rightarrow> sysinfo \<Rightarrow> filesystem \<Rightarrow> database \<Rightarrow> world \<Rightarrow> pyval \<times> database \<times> world"
where
  "load_config env si fs s w =
     (if truthy (cached_config s) then (cached_config s, s, w)
      else if list_all truthy (map snd (env_config env))
      then (PDict (env_config env), s\<lparr>cached_config := PDict (env_config env)\<rparr>, w)
      else (case probe_paths env fs (possible_paths si) s w of
              (Some c, s', w') \<Rightarrow> (c, s', w')
            | (None, s', w') \<Rightarrow>
                (fallback_config, s'\<lparr>cached_config := fallback_config\<rparr>, print WarnFallback w')))"

subsection \<open>The exceptions that no handler catches\<close>

text \<open>
  The same method with its two unguarded places made explicit. The list of candidate paths
  is built before the loop, outside the \<^verbatim>\<open>try\<close>: \<^verbatim>\<open>Path(sys.executable)\<close> raises
  \<^verbatim>\<open>TypeError\<close> when the interpreter could not determine its executable, so that
  \<^verbatim>\<open>sys.executable\<close> is \<^verbatim>\<open>None\<close>. A \<^verbatim>\<open>print\<close> raises when standard output
  cannot take the message, for instance \<^verbatim>\<open>UnicodeEncodeError\<close> for a path that the
  console's encoding lacks: inside the \<^verbatim>\<open>try\<close> this is caught like any other
  exception (after \<^verbatim>\<open>self._config\<close> has been assigned), in the handler and at the
  fallback it is not. The module's \<^verbatim>\<open>__file__\<close> is taken as defined.
\<close>

type_synonym console = "log \<Rightarrow> exn option"

definition try_print :: "console \<Rightarrow> log \<Rightarrow> world \<Rightarrow> exn + world" where
  "try_print out l w = (case out l of Some e \<Rightarrow> Inl e | None \<Rightarrow> Inr (print l w))"

text \<open>
  What the interpreter knows: \<^verbatim>\<open>sys._MEIPASS\<close> when the attribute exists,
  \<^verbatim>\<open>Path(__file__).parent\<close>, and \<^verbatim>\<open>Path(sys.executable).parent\<close> unless
  \<^verbatim>\<open>sys.executable\<close> is \<^verbatim>\<open>None\<close>.
\<close>

record interpreter =
  frozen_dir :: "path option"
  module_dir :: path
  executable_dir :: "path option"

definition locate :: "interpreter \<Rightarrow> exn + sysinfo" where
  "locate y =
     (case executable_dir y of
        None \<Rightarrow> Inl TypeError
      | Some d \<Rightarrow>
          Inr \<lparr>meipass = frozen_dir y, file_parent = module_dir y, executable_parent = d\<rparr>)"

fun probe_paths_raising ::
  "console \<Rightarrow> environ \<Rightarrow> filesystem \<Rightarrow> path list \<Rightarrow> database \<Rightarrow> world \<Rightarrow>
     (exn + pyval option) \<times> database \<times> world"
where
  "probe_paths_raising out env fs [] s w = (Inr None, s, w)"
| "probe_paths_raising out env fs (p # ps) s w =
     (case try_path env (fs p) of
        Inl e \<Rightarrow>
          (case try_print out (WarnCouldNotLoad p e) w of
             Inl e' \<Rightarrow> (Inl e', s, w)
           | Inr w' \<Rightarrow> probe_paths_raising out env fs ps s w')
      | Inr None \<Rightarrow> probe_paths_raising out env fs ps s w
      | Inr (Some c) \<Rightarrow>
          (case try_print out (DebugLoaded p) w of
             Inr w' \<Rightarrow> (Inr (Some c), s\<lparr>cached_config := c\<rparr>, w')
           | Inl e \<Rightarrow>
               (case try_print out (WarnCouldNotLoad p e) w of
                  Inl e' \<Rightarrow> (Inl e', s\<lparr>cached_config := c\<rparr>, w)
                | Inr w' \<Rightarrow> probe_paths_raising out env fs ps (s\<lparr>cached_config := c\<rparr>) w')))"

definition load_config_raising ::
  "console \<Rightarrow> interpreter \<Rightarrow> environ \<Rightarrow> filesystem \<Rightarrow> database \<Rightarrow> world \<Rightarrow>
     (exn + pyval) \<times> database \<times> world"
where
  "load_config_raising out y env fs s w =
     (if truthy (cached_config s) then (Inr (cached_config s), s, w)
      else if list_all truthy (map snd (env_config env))
      then (Inr (PDict (env_config env)), s\<lparr>cached_config := PDict (env_config env)\<rparr>, w)
      else (case locate y of
              Inl e \<Rightarrow> (Inl e, s, w)
            | Inr si \<Rightarrow>
                (case probe_paths_raising out env fs (possible_paths si) s w of
                   (Inl e, s', w') \<Rightarrow> (Inl e, s', w')
                 | (Inr (Some c), s', w') \<Rightarrow> (Inr c, s', w')
                 | (Inr None, s', w') \<Rightarrow>
                     (case try_print out WarnFallback w' of
                        Inl e \<Rightarrow> (Inl e, s', w')
                      | Inr w'' \<Rightarrow>
                          (Inr fallback_config, s'\<lparr>cached_config := fallback_config\<rparr>, w'')))))"

section \<open>The connection\<close>

text \<open>
  The driver's \<^verbatim>\<open>psycopg2.connect\<close>, given the values of the keyword arguments
  \<^verbatim>\<open>dbname, user, password, host, port\<close>: it raises, or opens a connection.
\<close>

type_synonym driver = "pyval list \<Rightarrow> exn option"

text \<open>
  The five subscripts \<^verbatim>\<open>config['dbname']\<close>, ... are evaluated in order inside the
  \<^verbatim>\<open>try\<close>; the first one that raises ends the evaluation.
\<close>

fun getitems :: "pyval \<Rightarrow> string list \<Rightarrow> exn + pyval list" where
  "getitems c [] = Inr []"
| "getitems c (k # ks) =
     (case getitem c k of
        Inl e \<Rightarrow> Inl e
      | Inr v \<Rightarrow> (case getitems c ks of Inl e \<Rightarrow> Inl e | Inr vs \<Rightarrow> Inr (v # vs)))"

text \<open>
  The connection object when \<^verbatim>\<open>self.connection and not self.connection.closed\<close>
  holds.
\<close>

definition open_connection :: "database \<Rightarrow> world \<Rightarrow> nat option" where
  "open_connection s w =
     (case connection s of None \<Rightarrow> None | Some h \<Rightarrow> if closed w h then None else Some h)"

definition connect ::
  "environ \<Rightarrow> sysinfo \<Rightarrow> filesystem \<Rightarrow> driver \<Rightarrow> database \<Rightarrow> world \<Rightarrow> (exn + nat) \<times> database \<times> world"
where
  "connect env si fs drv s w =
     (case open_connection s w of
        Some h \<Rightarrow> (Inr h, s, w)
      | None \<Rightarrow>
          (case load_config env si fs s w of
             (config, s1, w1) \<Rightarrow>
               (case getitems config config_keys of
                  Inl e \<Rightarrow> (Inl (ConnectionError e), s1, print (ErrorConnectFailed e) w1)
                | Inr args \<Rightarrow>
                    (case drv args of
                       Some e \<Rightarrow> (Inl (ConnectionError e), s1, print (ErrorConnectFailed e) w1)
                     | None \<Rightarrow>
                         (Inr (opened w1),
                          s1\<lparr>connection := Some (opened w1)\<rparr>,
                          print InfoConnected
                            (w1\<lparr>opened := Suc (opened w1),
                                closed := (closed w1)(opened w1 := False)\<rparr>))))))"

text \<open>
  Of the two definitions of \<^verbatim>\<open>close\<close> and of \<^verbatim>\<open>get_cursor\<close> in the class body the
  later one is the method: a later \<^verbatim>\<open>def\<close> rebinds the name.
\<close>

definition close :: "database \<Rightarrow> world \<Rightarrow> database \<times> world" where
  "close s w =
     (case connection s of
        None \<Rightarrow> (s, w)
      | Some h \<Rightarrow> (s, print InfoClosed (w\<lparr>closed := (closed w)(h := True)\<rparr>)))"

text \<open>
  \<^verbatim>\<open>get_cursor\<close> raises without a connection object; the driver's
  \<^verbatim>\<open>connection.cursor()\<close> raises \<^verbatim>\<open>InterfaceError\<close> on a closed connection. A cursor
  is named by its connection.
\<close>

definition get_cursor :: "database \<Rightarrow> world \<Rightarrow> exn + nat" where
  "get_cursor s w =
     (case connection s of
        None \<Rightarrow> Inl (PlainException ''No active database connection.'')
      | Some h \<Rightarrow> if closed w h then Inl InterfaceError else Inr h)"

section \<open>The staff lookups\<close>

text \<open>
  The text of a column is a Python \<^verbatim>\<open>str\<close>: a list of Unicode code points. A row of
  text columns holds for each column its text, or \<^verbatim>\<open>None\<close> for SQL NULL. The server
  answers a statement and its parameters with an exception or the rows selected.
\<close>

type_synonym pystr = "nat list"

type_synonym row = "pystr option list"

type_synonym server = "string \<Rightarrow> pyval list \<Rightarrow> exn + row list"

definition execute :: "server \<Rightarrow> string \<Rightarrow> pyval list \<Rightarrow> world \<Rightarrow> (exn + row list) \<times> world" where
  "execute db sql params w = (db sql params, w\<lparr>queries := queries w @ [(sql, params)]\<rparr>)"

definition fetchone :: "row list \<Rightarrow> row option" where
  "fetchone rows = (case rows of [] \<Rightarrow> None | r # rest \<Rightarrow> Some r)"

definition get_user_first_name ::
  "server \<Rightarrow> pyval \<Rightarrow> database \<Rightarrow> world \<Rightarrow> (exn + pystr option) \<times> world"
where
  "get_user_first_name db username s w =
     (case get_cursor s w of
        Inl e \<Rightarrow> (Inl e, w)
      | Inr cursor \<Rightarrow>
          (case execute db ''SELECT STAFF_FIRSTNAME FROM STAFF WHERE STAFF_USERNAME = %s''
                  [username] w of
             (Inl e, w1) \<Rightarrow> (Inl e, w1)
           | (Inr rows, w1) \<Rightarrow>
               (case fetchone rows of
                  None \<Rightarrow> (Inr None, w1)
                | Some [] \<Rightarrow> (Inr None, w1)
                | Some (x # xs) \<Rightarrow> (Inr x, w1))))"

text \<open>
  The class body defines \<^verbatim>\<open>get_user_first_name\<close> twice. The definition above is the
  later one, which is the method. The earlier one, which the later one replaces, is the
  same body inside \<^verbatim>\<open>try\<close> with a handler that prints and returns \<^verbatim>\<open>None\<close>.
\<close>

definition get_user_first_name_overridden ::
  "server \<Rightarrow> pyval \<Rightarrow> database \<Rightarrow> world \<Rightarrow> pystr option \<times> world"
where
  "get_user_first_name_overridden db username s w =
     (case get_user_first_name db username s w of
        (Inl e, w1) \<Rightarrow> (None, print (ErrorUserName e) w1)
      | (Inr r, w1) \<Rightarrow> (r, w1))"

text \<open>
  The code points that \<^verbatim>\<open>str.strip\<close> removes: U+0009 to U+000D, U+001C to U+0020,
  U+0085, U+00A0, U+1680, U+2000 to U+200A, U+2028, U+2029, U+202F, U+205F and U+3000.
\<close>

definition isspace :: "nat \<Rightarrow> bool" where
  "isspace c =
     (c \<in> {9, 10, 11, 12, 13, 28, 29, 30, 31, 32, 133, 160, 5760, 8232, 8233, 8239, 8287, 12288}
      \<or> (8192 \<le> c \<and> c \<le> 8202))"

definition strip :: "pystr \<Rightarrow> pystr" where
  "strip s = rev (dropWhile isspace (rev (dropWhile isspace s)))"

text \<open>The code points of an ASCII literal.\<close>

definition codepoints :: "string \<Rightarrow> pystr" where
  "codepoints s = map of_char s"

text \<open>How an f-string renders a column value.\<close>

fun format_value :: "pystr option \<Rightarrow> pystr" where
  "format_value None = codepoints ''None''"
| "format_value (Some s) = s"

text \<open>The body of the \<^verbatim>\<open>try\<close> in \<^verbatim>\<open>get_staff_name_by_id\<close>.\<close>

definition staff_name_query ::
  "server \<Rightarrow> pyval \<Rightarrow> database \<Rightarrow> world \<Rightarrow> (exn + pystr option) \<times> world"
where
  "staff_name_query db staff_id s w =
     (case get_cursor s w of
        Inl e \<Rightarrow> (Inl e, w)
      | Inr cur \<Rightarrow>
          (case execute db
                  ''SELECT STAFF_FIRSTNAME, STAFF_LASTNAME FROM STAFF WHERE STAFF_ID = %s''
                  [staff_id] w of
             (Inl e, w1) \<Rightarrow> (Inl e, w1)
           | (Inr rows, w1) \<Rightarrow>
               (case fetchone rows of
                  None \<Rightarrow> (Inr None, w1)
                | Some [] \<Rightarrow> (Inr None, w1)
                | Some [firstname, lastname] \<Rightarrow>
                    (Inr (Some (strip (format_value firstname @ codepoints '' '' @
                                       format_value lastname))),
                     w1)
                | Some other \<Rightarrow> (Inl ValueError, w1))))"

definition get_staff_name_by_id ::
  "server \<Rightarrow> pyval \<Rightarrow> database \<Rightarrow> world \<Rightarrow> pystr option \<times> world"
where
  "get_staff_name_by_id db staff_id s w =
     (if staff_id = PNone then (None, w)
      else (case staff_name_query db staff_id s w of
              (Inl e, w1) \<Rightarrow> (None, print (ErrorStaffName staff_id e) w1)
            | (Inr r, w1) \<Rightarrow> (r, w1)))"

section \<open>fetch_one\<close>

text \<open>
  The attributes of a \<^verbatim>\<open>Database\<close> object: the two that \<^verbatim>\<open>__init__\<close> assigns (no
  other method assigns an attribute of another name) and the methods of the class.
\<close>

definition instance_attributes :: "string list" where
  "instance_attributes = [''connection'', ''_config'']"

definition class_attributes :: "string list" where
  "class_attributes =
     [''__init__'', ''_load_config'', ''connect'', ''get_cursor'', ''close'',
      ''get_user_first_name'', ''commit'', ''rollback'', ''get_staff_id'',
      ''get_staff_name_by_id'', ''fetch_all'', ''fetch_one'']"

definition has_attribute :: "string \<Rightarrow> bool" where
  "has_attribute name = (name \<in> set (instance_attributes @ class_attributes))"

definition fetch_one ::
  "environ \<Rightarrow> sysinfo \<Rightarrow> filesystem \<Rightarrow> driver \<Rightarrow> server \<Rightarrow> string \<Rightarrow> pyval list option
     \<Rightarrow> database \<Rightarrow> world \<Rightarrow> row option \<times> database \<times> world"
where
  "fetch_one env si fs drv db query params s w =
     (case connect env si fs drv s w of
        (Inl e, s1, w1) \<Rightarrow> (None, s1, print (ErrorFetchOne e) w1)
      | (Inr h, s1, w1) \<Rightarrow>
          (if has_attribute ''cursor''
           then (case execute db query (case params of None \<Rightarrow> [] | Some ps \<Rightarrow> ps) w1 of
                   (Inl e, w2) \<Rightarrow> (None, s1, print (ErrorFetchOne e) w2)
                 | (Inr rows, w2) \<Rightarrow> (fetchone rows, s1, w2))
           else (None, s1, print (ErrorFetchOne (AttributeError ''cursor'')) w1)))"

section \<open>Observations used in the statements\<close>

text \<open>The warnings that the loop over the candidate paths prints, in order.\<close>

fun load_warnings :: "environ \<Rightarrow> filesystem \<Rightarrow> path list \<Rightarrow> log list" where
  "load_warnings env fs [] = []"
| "load_warnings env fs (p # ps) =
     (case try_path env (fs p) of
        Inl e \<Rightarrow> WarnCouldNotLoad p e # load_warnings env fs ps
      | Inr r \<Rightarrow> load_warnings env fs ps)"

text \<open>
  The connection object of the manager, when it has one, is one that the driver has given
  out. This holds of a new manager and is kept by \<^verbatim>\<open>connect\<close> and \<^verbatim>\<open>close\<close>.
\<close>

definition known_handles :: "database \<Rightarrow> world \<Rightarrow> bool" where
  "known_handles s w = (case connection s of None \<Rightarrow> True | Some h \<Rightarrow> h < opened w)"

text \<open>
  A config is fully populated when it is a dictionary in which each of the five keys is
  present with a value that is not empty (in the sense of \<^verbatim>\<open>all(config.values())\<close>).
\<close>

definition fully_populated :: "pyval \<Rightarrow> bool" where
  "fully_populated c =
     (case c of
        PDict d \<Rightarrow>
          list_all (\<lambda>k. case map_of d k of None \<Rightarrow> False | Some v \<Rightarrow> truthy v) config_keys
      | other \<Rightarrow> False)"

text \<open>
  The merge as the specification words it, for comparison with the code: the variable that
  corresponds to a key is the one the environment source reads for it, and it overwrites
  the file's field whenever it is set.
\<close>

definition spec_env_var :: "string \<Rightarrow> string" where
  "spec_env_var k =
     (if k = ''dbname'' then ''DB_NAME''
      else if k = ''user'' then ''DB_USER''
      else if k = ''password'' then ''DB_PASSWORD''
      else if k = ''host'' then ''DB_HOST''
      else ''DB_PORT'')"

definition spec_merged :: "environ \<Rightarrow> (string \<times> pyval) list \<Rightarrow> string \<Rightarrow> pyval option" where
  "spec_merged env d k =
     (if k \<in> set config_keys
      then (case env (spec_env_var k) of None \<Rightarrow> map_of d k | Some v \<Rightarrow> Some (PStr v))
      else map_of d k)"

section \<open>Example inputs\<close>

definition env_full :: environ where
  "env_full =
     map_of [(''DB_NAME'', ''papersync''), (''DB_USER'', ''app''),
             (''DB_PASSWORD'', ''secret''), (''DB_HOST'', ''db.example.org'')]"

definition env_partial :: environ where
  "env_partial = map_of [(''DB_NAME'', ''prod''), (''DB_HOST'', [])]"

definition file0 :: "(string \<times> pyval) list" where
  "file0 = [(''dbname'', PStr ''filedb''), (''user'', PStr ''fileuser''),
            (''password'', PStr ''filepw''), (''host'', PStr ''filehost''),
            (''port'', PStr ''5433''), (''sslmode'', PStr ''require'')]"

definition fs_first :: "pyval \<Rightarrow> filesystem" where
  "fs_first j = (\<lambda>p. if p = [''database'', ''config.json''] then Parsed j else Missing)"

definition env_user :: environ where
  "env_user = map_of [(''DB_USER'', ''app''), (''DB_HOST'', [])]"

definition fs_broken :: filesystem where
  "fs_broken = (\<lambda>p. if p = [''database'', ''config.json''] then Unreadable ''Expecting value'' else Missing)"

definition drv_ok :: driver where
  "drv_ok = (\<lambda>args. None)"

definition drv_refuse :: driver where
  "drv_refuse = (\<lambda>args. Some (DriverError ''connection refused''))"

definition fs_none :: filesystem where
  "fs_none = (\<lambda>p. Missing)"

definition connected :: database where
  "connected = \<lparr>connection = Some 0, cached_config = PNone\<rparr>"

definition world1 :: world where
  "world1 = \<lparr>opened = 1, closed = (\<lambda>h. False), queries = [], stdout = []\<rparr>"

definition staff_db :: server where
  "staff_db = (\<lambda>sql params.
     if sql = ''SELECT STAFF_FIRSTNAME, STAFF_LASTNAME FROM STAFF WHERE STAFF_ID = %s''
     then (if params = [PInt 7]
           then Inr [[Some (codepoints '' Ada''), Some (codepoints ''Lovelace  '')]]
           else if params = [PInt 9]
           then Inr [[Some [12288, 23665, 30000], Some [22826, 37070, 8195]]]
           else Inr [])
     else Inl (DriverError ''syntax error''))"

definition console_ok :: console where
  "console_ok = (\<lambda>l. None)"

definition console_ascii :: console where
  "console_ascii =
     (\<lambda>l. case l of
            WarnCouldNotLoad p e \<Rightarrow> Some UnicodeEncodeError
          | DebugLoaded p \<Rightarrow> Some UnicodeEncodeError
          | other \<Rightarrow> None)"

definition python0 :: interpreter where
  "python0 = \<lparr>frozen_dir = None, module_dir = [''app'', ''database''],
     executable_dir = Some [''usr'', ''bin'']\<rparr>"

definition python_embedded :: interpreter where
  "python_embedded = \<lparr>frozen_dir = None, module_dir = [''app'', ''database''],
     executable_dir = None\<rparr>"

definition world1_closed :: world where
  "world1_closed = \<lparr>opened = 1, closed = (\<lambda>h. h = 0), queries = [], stdout = []\<rparr>"

section \<open>Facts about the parts\<close>

lemma print_stdout [simp]: "stdout (print l w) = stdout w @ [l]"
  and print_opened [simp]: "opened (print l w) = opened w"
  and print_closed [simp]: "closed (print l w) = closed w"
  and print_queries [simp]: "queries (print l w) = queries w"
  by (simp_all add: print_def)

lemma upper_keys [simp]:
  "upper ''dbname'' = ''DBNAME''" "upper ''user'' = ''USER''" "upper ''password'' = ''PASSWORD''"
  "upper ''host'' = ''HOST''" "upper ''port'' = ''PORT''"
  by (simp_all add: upper_def upper_char_def)

lemma merge_env_dict:
  "\<exists>d'. merge_env env keys (PDict d) = Inr (PDict d') \<and>
     (\<forall>k. map_of d' k =
        (if k \<in> set keys \<and> truthy (getenv env (''DB_'' @ upper k))
         then Some (getenv env (''DB_'' @ upper k)) else map_of d k))"
proof (induction keys arbitrary: d)
  case Nil
  then show ?case by simp
next
  case (Cons key keys)
  show ?case
  proof (cases "truthy (getenv env (''DB_'' @ upper key))")
    case False
    with Cons.IH [of d] show ?thesis by auto
  next
    case True
    from Cons.IH [of "AList.update key (getenv env (''DB_'' @ upper key)) d"]
    obtain d' where d': "merge_env env keys (PDict (AList.update key (getenv env (''DB_'' @ upper key)) d)) = Inr (PDict d')"
      and look: "\<And>k. map_of d' k =
        (if k \<in> set keys \<and> truthy (getenv env (''DB_'' @ upper k))
         then Some (getenv env (''DB_'' @ upper k))
         else map_of (AList.update key (getenv env (''DB_'' @ upper key)) d) k)"
      by blast
    from True d' have "merge_env env (key # keys) (PDict d) = Inr (PDict d')" by simp
    moreover have "\<forall>k. map_of d' k =
        (if k \<in> set (key # keys) \<and> truthy (getenv env (''DB_'' @ upper k))
         then Some (getenv env (''DB_'' @ upper k)) else map_of d k)"
      using True by (auto simp: look update_conv')
    ultimately show ?thesis by blast
  qed
qed

lemma probe_paths_none:
  assumes "\<forall>p\<in>set ps. \<forall>c. try_path env (fs p) \<noteq> Inr (Some c)"
  shows "probe_paths env fs ps s w = (None, s, w\<lparr>stdout := stdout w @ load_warnings env fs ps\<rparr>)"
  using assms
proof (induction ps arbitrary: w)
  case Nil
  then show ?case by simp
next
  case (Cons p ps)
  then show ?case
    by (cases "try_path env (fs p)") (auto simp: print_def split: option.splits)
qed

lemma probe_paths_first:
  assumes "try_path env (fs p) = Inr (Some c)"
  shows "probe_paths env fs (p # ps) s w = (Some c, s\<lparr>cached_config := c\<rparr>, print (DebugLoaded p) w)"
  using assms by simp

lemma load_config_cached:
  "truthy (cached_config s) \<Longrightarrow> load_config env si fs s w = (cached_config s, s, w)"
  by (simp add: load_config_def)

lemma fully_populated_env:
  "list_all truthy (map snd (env_config env)) \<Longrightarrow> fully_populated (PDict (env_config env))"
  by (simp add: fully_populated_def env_config_def config_keys_def)

lemma fully_populated_fallback: "fully_populated fallback_config"
  by (simp add: fully_populated_def fallback_config_def config_keys_def)

lemma probe_paths_frame:
  "probe_paths env fs ps s w = (r, s', w') \<Longrightarrow>
     connection s' = connection s \<and> opened w' = opened w \<and> closed w' = closed w \<and>
     queries w' = queries w"
proof (induction ps arbitrary: w)
  case Nil
  then show ?case by simp
next
  case (Cons p ps)
  show ?case
  proof (cases "try_path env (fs p)")
    case (Inl e)
    with Cons.prems have "probe_paths env fs ps s (print (WarnCouldNotLoad p e) w) = (r, s', w')"
      by simp
    from Cons.IH [OF this] show ?thesis by simp
  next
    case (Inr v)
    show ?thesis
    proof (cases v)
      case None
      with Inr Cons.prems have "probe_paths env fs ps s w = (r, s', w')" by simp
      from Cons.IH [OF this] show ?thesis .
    next
      case (Some c)
      with Inr Cons.prems show ?thesis by auto
    qed
  qed
qed

lemma load_config_frame:
  assumes "load_config env si fs s w = (c, s', w')"
  shows "connection s' = connection s \<and> opened w' = opened w \<and> closed w' = closed w \<and>
     queries w' = queries w"
proof (cases "truthy (cached_config s) \<or> list_all truthy (map snd (env_config env))")
  case True
  with assms show ?thesis by (auto simp: load_config_def split: if_splits)
next
  case False
  obtain r s2 w2 where probe: "probe_paths env fs (possible_paths si) s w = (r, s2, w2)"
    by (cases "probe_paths env fs (possible_paths si) s w") auto
  from probe_paths_frame [OF probe]
  have "connection s2 = connection s \<and> opened w2 = opened w \<and> closed w2 = closed w \<and>
     queries w2 = queries w" .
  with assms False probe show ?thesis
    by (cases r) (auto simp: load_config_def)
qed

lemma connect_reuse:
  "open_connection s w = Some h \<Longrightarrow> connect env si fs drv s w = (Inr h, s, w)"
  by (simp add: connect_def)

lemma connect_new:
  assumes none: "open_connection s w = None"
    and ok: "connect env si fs drv s w = (Inr h, s', w')"
  shows "h = opened w \<and> opened w' = Suc (opened w) \<and> connection s' = Some h \<and>
     closed w' = (closed w)(h := False)"
proof -
  obtain c s1 w1 where lc: "load_config env si fs s w = (c, s1, w1)"
    by (cases "load_config env si fs s w") auto
  from load_config_frame [OF lc]
  have frame: "connection s1 = connection s" "opened w1 = opened w" "closed w1 = closed w"
    by simp_all
  from none ok lc show ?thesis
    by (auto simp: connect_def frame split: sum.splits option.splits)
qed

lemma connect_error:
  assumes "connect env si fs drv s w = (Inl x, s', w')"
  shows "(\<exists>e. x = ConnectionError e) \<and> connection s' = connection s \<and>
     opened w' = opened w \<and> closed w' = closed w"
proof -
  obtain c s1 w1 where lc: "load_config env si fs s w = (c, s1, w1)"
    by (cases "load_config env si fs s w") auto
  from load_config_frame [OF lc]
  have frame: "connection s1 = connection s" "opened w1 = opened w" "closed w1 = closed w"
    by simp_all
  from assms lc frame show ?thesis
    by (auto simp: connect_def split: sum.splits option.splits)
qed

lemma open_connection_Some:
  "open_connection s w = Some h \<longleftrightarrow> connection s = Some h \<and> \<not> closed w h"
  by (auto simp: open_connection_def split: option.splits if_splits)

lemma connect_success:
  assumes known: "known_handles s w"
    and ok: "connect env si fs drv s w = (Inr h, s', w')"
  shows "open_connection s' w' = Some h \<and> h < opened w' \<and> opened w \<le> opened w'"
proof (cases "open_connection s w")
  case None
  from connect_new [OF None ok] show ?thesis
    by (simp add: open_connection_Some)
next
  case (Some h0)
  with ok have "h = h0" "s' = s" "w' = w" by (simp_all add: connect_reuse)
  with Some known show ?thesis
    by (auto simp: open_connection_Some known_handles_def)
qed

lemma close_connected:
  assumes "connection s = Some h"
  shows "close s w = (s, print InfoClosed (w\<lparr>closed := (closed w)(h := True)\<rparr>))"
  using assms by (simp add: close_def)

lemma known_handles_init: "known_handles init w"
  by (simp add: known_handles_def init_def)

lemma known_handles_connect:
  assumes "known_handles s w" and "connect env si fs drv s w = (r, s', w')"
  shows "known_handles s' w'"
proof (cases r)
  case (Inl x)
  with assms connect_error [of env si fs drv s w x s' w'] show ?thesis
    by (auto simp: known_handles_def split: option.splits)
next
  case (Inr h)
  with assms connect_success [of s w env si fs drv h s' w'] show ?thesis
    by (auto simp: known_handles_def open_connection_Some)
qed

lemma known_handles_close:
  assumes "known_handles s w" and "close s w = (s', w')"
  shows "known_handles s' w'"
  using assms by (auto simp: known_handles_def close_def split: option.splits)

lemma get_user_first_name_overridden_none:
  "get_user_first_name_overridden db username init w =
     (None, print (ErrorUserName (PlainException ''No active database connection.'')) w)"
  by (simp add: get_user_first_name_overridden_def get_user_first_name_def get_cursor_def init_def)

lemma load_config_fallback:
  assumes first: "\<not> truthy (cached_config s)"
    and incomplete: "\<not> list_all truthy (map snd (env_config env))"
    and nofile: "\<forall>p\<in>set (possible_paths si). \<forall>j. fs p \<noteq> Parsed j"
  shows "load_config env si fs s w =
     (fallback_config, s\<lparr>cached_config := fallback_config\<rparr>,
      w\<lparr>stdout := stdout w @ load_warnings env fs (possible_paths si) @ [WarnFallback]\<rparr>)"
proof -
  have "\<forall>p\<in>set (possible_paths si). \<forall>c. try_path env (fs p) \<noteq> Inr (Some c)"
    using nofile by (auto simp: try_path_def split: file_state.splits)
  then have "probe_paths env fs (possible_paths si) s w =
      (None, s, w\<lparr>stdout := stdout w @ load_warnings env fs (possible_paths si)\<rparr>)"
    by (rule probe_paths_none)
  with first incomplete show ?thesis
    by (simp add: load_config_def print_def)
qed

lemma probe_paths_raising_ok:
  assumes "\<forall>l. out l = None"
  shows "probe_paths_raising out env fs ps s w =
     (case probe_paths env fs ps s w of (r, s', w') \<Rightarrow> (Inr r, s', w'))"
  using assms
proof (induction ps arbitrary: w)
  case Nil
  then show ?case by simp
next
  case (Cons p ps)
  then show ?case
    by (cases "try_path env (fs p)") (auto simp: try_print_def split: option.splits)
qed

lemma load_config_raising_ok:
  assumes out: "\<forall>l. out l = None" and loc: "locate y = Inr si"
  shows "load_config_raising out y env fs s w =
     (case load_config env si fs s w of (c, s', w') \<Rightarrow> (Inr c, s', w'))"
proof -
  obtain r s1 w1 where probe: "probe_paths env fs (possible_paths si) s w = (r, s1, w1)"
    by (cases "probe_paths env fs (possible_paths si) s w") auto
  with out have "probe_paths_raising out env fs (possible_paths si) s w = (Inr r, s1, w1)"
    by (simp add: probe_paths_raising_ok)
  with out loc probe show ?thesis
    by (cases r) (simp_all add: load_config_raising_def load_config_def try_print_def)
qed

section \<open>Resolution from the environment\<close>

text \<open>
  Claim C1. On a call that finds no cached config (the first call on a manager, whose
  \<^verbatim>\<open>_config\<close> is \<^verbatim>\<open>None\<close>), when \<^verbatim>\<open>DB_NAME\<close>, \<^verbatim>\<open>DB_USER\<close>,
  \<^verbatim>\<open>DB_PASSWORD\<close> and \<^verbatim>\<open>DB_HOST\<close> are set and non-empty and \<^verbatim>\<open>DB_PORT\<close> is
  non-empty or unset (then read as \<^verbatim>\<open>5432\<close>), \<^verbatim>\<open>_load_config\<close> returns exactly
  these five values and caches them, whatever the file system holds at the candidate
  paths; nothing is printed.
\<close>

theorem load_config_env_complete:
  assumes first: "\<not> truthy (cached_config s)"
    and name: "env ''DB_NAME'' = Some n" "n \<noteq> []"
    and user: "env ''DB_USER'' = Some u" "u \<noteq> []"
    and password: "env ''DB_PASSWORD'' = Some pw" "pw \<noteq> []"
    and host: "env ''DB_HOST'' = Some h" "h \<noteq> []"
    and port: "env ''DB_PORT'' \<noteq> Some []"
  shows "load_config env si fs s w =
     (PDict [(''dbname'', PStr n), (''user'', PStr u), (''password'', PStr pw),
             (''host'', PStr h),
             (''port'', PStr (case env ''DB_PORT'' of None \<Rightarrow> ''5432'' | Some p \<Rightarrow> p))],
      s\<lparr>cached_config :=
           PDict [(''dbname'', PStr n), (''user'', PStr u), (''password'', PStr pw),
                  (''host'', PStr h),
                  (''port'', PStr (case env ''DB_PORT'' of None \<Rightarrow> ''5432'' | Some p \<Rightarrow> p))]\<rparr>,
      w)"
  using assms
  by (simp add: load_config_def env_config_def getenv_def getenv_default_def split: option.splits)

theorem load_config_env_complete_witness:
  "load_config env_full sys0 (\<lambda>p. Parsed (PDict [(''dbname'', PStr ''fromfile'')])) init world0 =
     (PDict [(''dbname'', PStr ''papersync''), (''user'', PStr ''app''),
             (''password'', PStr ''secret''), (''host'', PStr ''db.example.org''),
             (''port'', PStr ''5432'')],
      \<lparr>connection = None,
       cached_config = PDict [(''dbname'', PStr ''papersync''), (''user'', PStr ''app''),
             (''password'', PStr ''secret''), (''host'', PStr ''db.example.org''),
             (''port'', PStr ''5432'')]\<rparr>,
      world0)"
  using load_config_env_complete [of init env_full "''papersync''" "''app''" "''secret''"
      "''db.example.org''" sys0 "\<lambda>p. Parsed (PDict [(''dbname'', PStr ''fromfile'')])" world0]
  by (simp add: env_full_def init_def)

section \<open>Resolution from a config file\<close>

text \<open>
  Claim C2, as the code has it. On a call that finds no cached config, when the environment
  set is not complete and the first candidate path holds a file that parses to a JSON
  object, \<^verbatim>\<open>_load_config\<close> returns a dictionary in which each of the keys
  \<^verbatim>\<open>user\<close>, \<^verbatim>\<open>password\<close>, \<^verbatim>\<open>host\<close>, \<^verbatim>\<open>port\<close> holds the value of
  \<^verbatim>\<open>DB_USER\<close>, \<^verbatim>\<open>DB_PASSWORD\<close>, \<^verbatim>\<open>DB_HOST\<close>, \<^verbatim>\<open>DB_PORT\<close> exactly when
  that variable is set and non-empty, and the file's field otherwise; every key other
  than the five is as in the file.
\<close>

theorem load_config_file_merge:
  assumes first: "\<not> truthy (cached_config s)"
    and incomplete: "\<not> list_all truthy (map snd (env_config env))"
    and cfgfile: "fs (hd (possible_paths si)) = Parsed (PDict d)"
  shows "\<exists>d'. fst (load_config env si fs s w) = PDict d' \<and>
     map_of d' ''user'' =
       (if truthy (getenv env ''DB_USER'') then Some (getenv env ''DB_USER'') else map_of d ''user'') \<and>
     map_of d' ''password'' =
       (if truthy (getenv env ''DB_PASSWORD'') then Some (getenv env ''DB_PASSWORD'')
        else map_of d ''password'') \<and>
     map_of d' ''host'' =
       (if truthy (getenv env ''DB_HOST'') then Some (getenv env ''DB_HOST'') else map_of d ''host'') \<and>
     map_of d' ''port'' =
       (if truthy (getenv env ''DB_PORT'') then Some (getenv env ''DB_PORT'') else map_of d ''port'') \<and>
     (\<forall>k. k \<notin> set config_keys \<longrightarrow> map_of d' k = map_of d k)"
proof -
  obtain d' where d': "merge_env env config_keys (PDict d) = Inr (PDict d')"
    and look: "\<And>k. map_of d' k =
        (if k \<in> set config_keys \<and> truthy (getenv env (''DB_'' @ upper k))
         then Some (getenv env (''DB_'' @ upper k)) else map_of d k)"
    using merge_env_dict [of env config_keys d] by blast
  obtain p ps where paths: "possible_paths si = p # ps"
    by (simp add: possible_paths_def)
  with cfgfile have "try_path env (fs p) = Inr (Some (PDict d'))"
    by (simp add: try_path_def d')
  then have "probe_paths env fs (possible_paths si) s w =
      (Some (PDict d'), s\<lparr>cached_config := PDict d'\<rparr>, print (DebugLoaded p) w)"
    unfolding paths by (rule probe_paths_first)
  with first incomplete have res: "fst (load_config env si fs s w) = PDict d'"
    by (simp add: load_config_def)
  have "map_of d' ''user'' =
       (if truthy (getenv env ''DB_USER'') then Some (getenv env ''DB_USER'') else map_of d ''user'')"
    by (simp add: look config_keys_def)
  moreover have "map_of d' ''password'' =
       (if truthy (getenv env ''DB_PASSWORD'') then Some (getenv env ''DB_PASSWORD'')
        else map_of d ''password'')"
    by (simp add: look config_keys_def)
  moreover have "map_of d' ''host'' =
       (if truthy (getenv env ''DB_HOST'') then Some (getenv env ''DB_HOST'') else map_of d ''host'')"
    by (simp add: look config_keys_def)
  moreover have "map_of d' ''port'' =
       (if truthy (getenv env ''DB_PORT'') then Some (getenv env ''DB_PORT'') else map_of d ''port'')"
    by (simp add: look config_keys_def)
  moreover have "\<forall>k. k \<notin> set config_keys \<longrightarrow> map_of d' k = map_of d k"
    by (simp add: look)
  ultimately show ?thesis using res by blast
qed

theorem load_config_file_merge_witness:
  "\<exists>d'. fst (load_config env_user sys0 (fs_first (PDict file0)) init world0) = PDict d' \<and>
     map_of d' ''user'' = Some (PStr ''app'') \<and>
     map_of d' ''password'' = Some (PStr ''filepw'') \<and>
     map_of d' ''host'' = Some (PStr ''filehost'') \<and>
     map_of d' ''port'' = Some (PStr ''5433'') \<and>
     map_of d' ''sslmode'' = Some (PStr ''require'')"
proof -
  have "\<exists>d'. fst (load_config env_user sys0 (fs_first (PDict file0)) init world0) = PDict d' \<and>
     map_of d' ''user'' = Some (PStr ''app'') \<and>
     map_of d' ''password'' = Some (PStr ''filepw'') \<and>
     map_of d' ''host'' = Some (PStr ''filehost'') \<and>
     map_of d' ''port'' = Some (PStr ''5433'') \<and>
     (\<forall>k. k \<notin> set config_keys \<longrightarrow> map_of d' k = map_of file0 k)"
    using load_config_file_merge [of init env_user "fs_first (PDict file0)" sys0 file0 world0]
    by (simp add: init_def env_config_def getenv_def getenv_default_def possible_paths_def
        sys0_def fs_first_def env_user_def file0_def)
  then obtain d' where
    "fst (load_config env_user sys0 (fs_first (PDict file0)) init world0) = PDict d'"
    "map_of d' ''user'' = Some (PStr ''app'')"
    "map_of d' ''password'' = Some (PStr ''filepw'')"
    "map_of d' ''host'' = Some (PStr ''filehost'')"
    "map_of d' ''port'' = Some (PStr ''5433'')"
    and rest: "\<forall>k. k \<notin> set config_keys \<longrightarrow> map_of d' k = map_of file0 k"
    by blast
  moreover from rest have "map_of d' ''sslmode'' = Some (PStr ''require'')"
    by (simp add: config_keys_def file0_def)
  ultimately show ?thesis by blast
qed

text \<open>
  The claim as worded fails on the code: with \<^verbatim>\<open>DB_HOST\<close> set to the empty string
  and \<^verbatim>\<open>DB_NAME\<close> set to \<^verbatim>\<open>prod\<close>, the file's \<^verbatim>\<open>host\<close> and
  \<^verbatim>\<open>dbname\<close> are both returned unchanged.
\<close>

theorem load_config_file_merge_counterexample:
  "fst (load_config env_partial sys0 (fs_first (PDict file0)) init world0) = PDict file0 \<and>
   map_of file0 ''host'' \<noteq> spec_merged env_partial file0 ''host'' \<and>
   map_of file0 ''dbname'' \<noteq> spec_merged env_partial file0 ''dbname''"
  by (simp add: load_config_def env_config_def getenv_def getenv_default_def possible_paths_def
      sys0_def fs_first_def try_path_def init_def env_partial_def file0_def config_keys_def
      spec_merged_def spec_env_var_def)

section \<open>The fallback, and what can be raised\<close>

text \<open>
  Claim C3, as the code has it. Provided \<^verbatim>\<open>sys.executable\<close> is a string and standard
  output takes every message, \<^verbatim>\<open>_load_config\<close> never raises: for every environment,
  every state of the candidate files (missing, unreadable or unparseable, parsed) and every
  manager it returns a config. On a call that finds no cached config, when the environment
  set is not complete and no candidate file parses, it returns the literal fallback config
  for all five fields, caches it, and prints one warning for each unreadable file followed
  by the fallback warning.
\<close>

theorem load_config_raising_returns:
  assumes exe: "executable_dir y = Some d"
    and out: "\<forall>l. out l = None"
  shows "(\<exists>c s' w'. load_config_raising out y env fs s w = (Inr c, s', w')) \<and>
     (\<not> truthy (cached_config s) \<and> \<not> list_all truthy (map snd (env_config env)) \<and>
      (\<forall>p\<in>set (possible_paths
          \<lparr>meipass = frozen_dir y, file_parent = module_dir y, executable_parent = d\<rparr>).
         \<forall>j. fs p \<noteq> Parsed j) \<longrightarrow>
      load_config_raising out y env fs s w =
        (Inr fallback_config, s\<lparr>cached_config := fallback_config\<rparr>,
         w\<lparr>stdout := stdout w @
            load_warnings env fs (possible_paths
              \<lparr>meipass = frozen_dir y, file_parent = module_dir y, executable_parent = d\<rparr>) @
            [WarnFallback]\<rparr>))"
proof -
  define si where "si = \<lparr>meipass = frozen_dir y, file_parent = module_dir y, executable_parent = d\<rparr>"
  from exe have loc: "locate y = Inr si"
    by (simp add: locate_def si_def)
  note eq = load_config_raising_ok [OF out loc, of env fs s w]
  have returns: "\<exists>c s' w'. load_config_raising out y env fs s w = (Inr c, s', w')"
    unfolding eq by (cases "load_config env si fs s w") simp
  have fallback: "load_config_raising out y env fs s w =
        (Inr fallback_config, s\<lparr>cached_config := fallback_config\<rparr>,
         w\<lparr>stdout := stdout w @ load_warnings env fs (possible_paths si) @ [WarnFallback]\<rparr>)"
    if "\<not> truthy (cached_config s)" "\<not> list_all truthy (map snd (env_config env))"
      "\<forall>p\<in>set (possible_paths si). \<forall>j. fs p \<noteq> Parsed j"
    unfolding eq using load_config_fallback [OF that, of w] by simp
  from returns fallback show ?thesis
    unfolding si_def by blast
qed

theorem load_config_raising_returns_witness:
  "load_config_raising console_ok python0 Map.empty fs_broken init world0 =
     (Inr fallback_config, \<lparr>connection = None, cached_config = fallback_config\<rparr>,
      \<lparr>opened = 0, closed = (\<lambda>h. False), queries = [],
       stdout = [WarnCouldNotLoad [''database'', ''config.json''] (LoadError ''Expecting value''),
                 WarnFallback]\<rparr>)"
  using load_config_raising_returns [of python0 "[''usr'', ''bin'']" console_ok Map.empty
      fs_broken init world0]
  by (simp add: python0_def console_ok_def init_def env_config_def getenv_def getenv_default_def
      possible_paths_def fs_broken_def try_path_def world0_def)

text \<open>
  Without the proviso the method raises: with no variable set and no file,
  \<^verbatim>\<open>TypeError\<close> from \<^verbatim>\<open>Path(sys.executable)\<close> when \<^verbatim>\<open>sys.executable\<close> is
  \<^verbatim>\<open>None\<close>; with an unparseable first file, the exception of the handler's own
  \<^verbatim>\<open>print\<close> when the console cannot encode the warning.
\<close>

theorem load_config_raising_counterexample:
  "load_config_raising console_ok python_embedded Map.empty fs_none init world0 =
     (Inl TypeError, init, world0) \<and>
   load_config_raising console_ascii python0 Map.empty fs_broken init world0 =
     (Inl UnicodeEncodeError, init, world0)"
  by (simp add: load_config_raising_def locate_def python_embedded_def python0_def init_def
      env_config_def getenv_def getenv_default_def possible_paths_def fs_broken_def try_path_def
      try_print_def console_ascii_def)

section \<open>Which configs are fully populated\<close>

text \<open>
  Claim C4, as the code has it. On a call that finds no cached config, the returned config
  is fully populated whenever it comes from the complete environment set or from the
  fallback, that is, whenever the environment set is complete or no candidate path yields
  a config (each file is missing, unreadable, or not an object while a variable has to be
  merged into it). A config taken from a file is returned as merged, with no check of its
  fields.
\<close>

theorem load_config_populated:
  assumes first: "\<not> truthy (cached_config s)"
    and source: "list_all truthy (map snd (env_config env)) \<or>
      (\<forall>p\<in>set (possible_paths si). \<forall>c. try_path env (fs p) \<noteq> Inr (Some c))"
  shows "fully_populated (fst (load_config env si fs s w))"
proof (cases "list_all truthy (map snd (env_config env))")
  case True
  with first show ?thesis
    by (simp add: load_config_def fully_populated_env)
next
  case False
  with source have "\<forall>p\<in>set (possible_paths si). \<forall>c. try_path env (fs p) \<noteq> Inr (Some c)"
    by blast
  then have "probe_paths env fs (possible_paths si) s w =
      (None, s, w\<lparr>stdout := stdout w @ load_warnings env fs (possible_paths si)\<rparr>)"
    by (rule probe_paths_none)
  with first False show ?thesis
    by (simp add: load_config_def fully_populated_fallback)
qed

theorem load_config_populated_witness:
  "fully_populated (fst (load_config env_user sys0 (fs_first (PList [])) init world0))"
  using load_config_populated [of init env_user sys0 "fs_first (PList [])" world0]
  by (simp add: init_def env_user_def possible_paths_def sys0_def fs_first_def try_path_def
      config_keys_def getenv_def)

text \<open>
  A file that holds only \<^verbatim>\<open>dbname\<close>, with no variable set, is returned partially
  filled.
\<close>

theorem load_config_populated_counterexample:
  "\<not> fully_populated
      (fst (load_config Map.empty sys0 (fs_first (PDict [(''dbname'', PStr ''papersync'')]))
         init world0))"
  by (simp add: load_config_def env_config_def getenv_def getenv_default_def possible_paths_def
      sys0_def fs_first_def try_path_def init_def config_keys_def fully_populated_def)

section \<open>The cache\<close>

text \<open>
  Claim C9 at a file that holds the empty object. The first call returns and stores
  \<^verbatim>\<open>{}\<close>; the test \<^verbatim>\<open>if self._config\<close> finds it false, so the second call
  resolves again and, the environment being complete by then, returns the environment's
  values instead of the value returned before.
\<close>

theorem load_config_empty_object_not_memoized:
  "load_config Map.empty sys0 (fs_first (PDict [])) init world0 =
     (PDict [], \<lparr>connection = None, cached_config = PDict []\<rparr>,
      print (DebugLoaded [''database'', ''config.json'']) world0) \<and>
   fst (load_config env_full sys0 (fs_first (PDict []))
          \<lparr>connection = None, cached_config = PDict []\<rparr>
          (print (DebugLoaded [''database'', ''config.json'']) world0)) =
     PDict [(''dbname'', PStr ''papersync''), (''user'', PStr ''app''),
            (''password'', PStr ''secret''), (''host'', PStr ''db.example.org''),
            (''port'', PStr ''5432'')]"
  by (simp add: load_config_def env_config_def getenv_def getenv_default_def possible_paths_def
      sys0_def fs_first_def try_path_def init_def config_keys_def env_full_def)

section \<open>The connection lifecycle\<close>

text \<open>
  Claim C5. After a \<^verbatim>\<open>connect()\<close> that returned a connection, a second
  \<^verbatim>\<open>connect()\<close> returns the same connection and changes neither the manager nor the
  world (no connection is opened, nothing is resolved or printed), whatever the
  environment, the files and the driver would do by then. After \<^verbatim>\<open>close()\<close>, a
  \<^verbatim>\<open>connect()\<close> that returns a connection returns a new one: the handle is the
  driver's next, exactly one more connection has been opened, it is open and is the
  manager's connection, and the earlier one stays closed.
\<close>

theorem connect_lifecycle:
  assumes known: "known_handles s w"
    and first: "connect env si fs drv s w = (Inr h, s1, w1)"
  shows "connect env2 si2 fs2 drv2 s1 w1 = (Inr h, s1, w1) \<and>
     (\<forall>s2 w2 h3 s3 w3.
        close s1 w1 = (s2, w2) \<and> connect env3 si3 fs3 drv3 s2 w2 = (Inr h3, s3, w3) \<longrightarrow>
        h3 \<noteq> h \<and> h3 = opened w1 \<and> opened w3 = Suc (opened w1) \<and>
        open_connection s3 w3 = Some h3 \<and> closed w3 h)"
proof -
  from connect_success [OF known first]
  have op: "open_connection s1 w1 = Some h" and lt: "h < opened w1" by simp_all
  from op have conn: "connection s1 = Some h" by (simp add: open_connection_Some)
  have again: "connect env2 si2 fs2 drv2 s1 w1 = (Inr h, s1, w1)"
    using op by (rule connect_reuse)
  have after: "h3 \<noteq> h \<and> h3 = opened w1 \<and> opened w3 = Suc (opened w1) \<and>
        open_connection s3 w3 = Some h3 \<and> closed w3 h"
    if cl: "close s1 w1 = (s2, w2)" and third: "connect env3 si3 fs3 drv3 s2 w2 = (Inr h3, s3, w3)"
    for s2 w2 h3 s3 w3
  proof -
    from cl conn have s2: "s2 = s1"
      and w2: "w2 = print InfoClosed (w1\<lparr>closed := (closed w1)(h := True)\<rparr>)"
      by (simp_all add: close_connected)
    have none: "open_connection s2 w2 = None"
      by (simp add: s2 w2 open_connection_def conn)
    from connect_new [OF none third]
    have "h3 = opened w2" "opened w3 = Suc (opened w2)" "connection s3 = Some h3"
      "closed w3 = (closed w2)(h3 := False)"
      by simp_all
    with lt show ?thesis
      by (auto simp: w2 open_connection_Some)
  qed
  from again after show ?thesis by blast
qed

theorem connect_lifecycle_witness:
  "(case connect env_full sys0 fs_none drv_ok init world0 of
      (r, s1, w1) \<Rightarrow>
        r = Inr 0 \<and>
        connect Map.empty sys0 fs_none drv_refuse s1 w1 = (Inr 0, s1, w1) \<and>
        (case close s1 w1 of
           (s2, w2) \<Rightarrow>
             (case connect env_full sys0 fs_none drv_ok s2 w2 of
                (r3, s3, w3) \<Rightarrow>
                  r3 = Inr 1 \<and> opened w3 = 2 \<and> open_connection s3 w3 = Some 1 \<and> closed w3 0)))"
proof -
  define cfg where "cfg = PDict (env_config env_full)"
  define s1 where "s1 = \<lparr>connection = Some 0, cached_config = cfg\<rparr>"
  define w1 where "w1 = print InfoConnected
      (world0\<lparr>opened := Suc 0, closed := (closed world0)(0 := False)\<rparr>)"
  define w2 where "w2 = print InfoClosed (w1\<lparr>closed := (closed w1)(0 := True)\<rparr>)"
  have known: "known_handles init world0"
    by (simp add: known_handles_def init_def)
  have first: "connect env_full sys0 fs_none drv_ok init world0 = (Inr 0, s1, w1)"
    by (simp add: connect_def open_connection_def load_config_def init_def env_config_def
        env_full_def getenv_def getenv_default_def config_keys_def drv_ok_def world0_def
        s1_def w1_def cfg_def)
  have cl: "close s1 w1 = (s1, w2)"
    by (simp add: close_def s1_def w2_def)
  have truthy: "truthy (cached_config s1)"
    by (simp add: s1_def cfg_def env_config_def)
  have none: "open_connection s1 w2 = None"
    by (simp add: open_connection_def s1_def w2_def)
  have args: "getitems cfg config_keys =
      Inr [PStr ''papersync'', PStr ''app'', PStr ''secret'', PStr ''db.example.org'',
           PStr ''5432'']"
    by (simp add: cfg_def env_config_def env_full_def getenv_def getenv_default_def
        config_keys_def)
  obtain s3 w3 where third: "connect env_full sys0 fs_none drv_ok s1 w2 = (Inr (opened w2), s3, w3)"
    using none truthy args
    by (simp add: connect_def load_config_def drv_ok_def s1_def)
  have w2op: "opened w2 = 1" "opened w1 = 1"
    by (simp_all add: w2_def w1_def world0_def)
  from connect_lifecycle [OF known first, of Map.empty sys0 fs_none drv_refuse env_full sys0
      fs_none drv_ok] cl third
  have "connect Map.empty sys0 fs_none drv_refuse s1 w1 = (Inr 0, s1, w1)"
    and "opened w3 = Suc (opened w1) \<and> open_connection s3 w3 = Some (opened w2) \<and> closed w3 0"
    by blast+
  with first cl third w2op show ?thesis
    by simp
qed

section \<open>A failing driver\<close>

text \<open>
  Claim C6. When \<^verbatim>\<open>connect()\<close> has no open connection to return and the driver's
  connect call, made with the five resolved parameters, raises, \<^verbatim>\<open>connect()\<close> raises
  \<^verbatim>\<open>ConnectionError\<close> and \<^verbatim>\<open>self.connection\<close> keeps the value it had before the
  call; the driver's connections are as before.
\<close>

theorem connect_driver_failure:
  assumes none: "open_connection s w = None"
    and args: "getitems (fst (load_config env si fs s w)) config_keys = Inr args"
    and fails: "drv args = Some e"
  shows "\<exists>s' w'. connect env si fs drv s w = (Inl (ConnectionError e), s', w') \<and>
     connection s' = connection s \<and> opened w' = opened w \<and> closed w' = closed w"
proof -
  obtain c s1 w1 where lc: "load_config env si fs s w = (c, s1, w1)"
    by (cases "load_config env si fs s w") auto
  from load_config_frame [OF lc]
  have frame: "connection s1 = connection s" "opened w1 = opened w" "closed w1 = closed w"
    by simp_all
  from none args fails lc show ?thesis
    by (simp add: connect_def frame)
qed

theorem connect_driver_failure_witness:
  "\<exists>s' w'. connect env_full sys0 fs_none drv_refuse init world0 =
       (Inl (ConnectionError (DriverError ''connection refused'')), s', w') \<and>
     connection s' = None \<and> opened w' = 0"
proof -
  have none: "open_connection init world0 = None"
    by (simp add: open_connection_def init_def)
  have lc: "fst (load_config env_full sys0 fs_none init world0) =
      PDict [(''dbname'', PStr ''papersync''), (''user'', PStr ''app''),
             (''password'', PStr ''secret''), (''host'', PStr ''db.example.org''),
             (''port'', PStr ''5432'')]"
    by (simp add: load_config_def init_def env_config_def env_full_def getenv_def
        getenv_default_def)
  have args: "getitems (fst (load_config env_full sys0 fs_none init world0)) config_keys =
      Inr [PStr ''papersync'', PStr ''app'', PStr ''secret'', PStr ''db.example.org'',
           PStr ''5432'']"
    unfolding lc by (simp add: config_keys_def)
  have fails: "drv_refuse [PStr ''papersync'', PStr ''app'', PStr ''secret'',
      PStr ''db.example.org'', PStr ''5432''] = Some (DriverError ''connection refused'')"
    by (simp add: drv_refuse_def)
  from connect_driver_failure [where drv = drv_refuse, OF none args fails]
  obtain s' w' where "connect env_full sys0 fs_none drv_refuse init world0 =
       (Inl (ConnectionError (DriverError ''connection refused'')), s', w')"
    "connection s' = connection init" "opened w' = opened world0"
    by blast
  then show ?thesis
    by (simp add: init_def world0_def)
qed

section \<open>The staff name lookup\<close>

text \<open>
  Claim C7, as the code has it. \<^verbatim>\<open>get_staff_name_by_id(None)\<close> returns \<^verbatim>\<open>None\<close> and
  leaves the world as it is: no statement is sent. For an id other than \<^verbatim>\<open>None\<close>, when
  the manager holds an open connection, so that \<^verbatim>\<open>get_cursor\<close> yields a cursor, and the
  statement selects a row, the result is the first and the last name of the first row
  joined by one space and stripped; when the statement selects no row, the result is
  \<^verbatim>\<open>None\<close>.
\<close>

theorem get_staff_name_by_id_result:
  "get_staff_name_by_id db PNone s w = (None, w) \<and>
   (staff_id \<noteq> PNone \<and> get_cursor s w = Inr cur \<and>
    db ''SELECT STAFF_FIRSTNAME, STAFF_LASTNAME FROM STAFF WHERE STAFF_ID = %s'' [staff_id] =
      Inr ([firstname, lastname] # rest) \<longrightarrow>
    fst (get_staff_name_by_id db staff_id s w) =
      Some (strip (format_value firstname @ codepoints '' '' @ format_value lastname))) \<and>
   (staff_id \<noteq> PNone \<and>
    db ''SELECT STAFF_FIRSTNAME, STAFF_LASTNAME FROM STAFF WHERE STAFF_ID = %s'' [staff_id] =
      Inr [] \<longrightarrow>
    fst (get_staff_name_by_id db staff_id s w) = None)"
proof -
  have absent: "get_staff_name_by_id db PNone s w = (None, w)"
    by (simp add: get_staff_name_by_id_def)
  have found: "fst (get_staff_name_by_id db staff_id s w) =
      Some (strip (format_value firstname @ codepoints '' '' @ format_value lastname))"
    if "staff_id \<noteq> PNone" "get_cursor s w = Inr cur"
      "db ''SELECT STAFF_FIRSTNAME, STAFF_LASTNAME FROM STAFF WHERE STAFF_ID = %s'' [staff_id] =
         Inr ([firstname, lastname] # rest)"
    using that
    by (simp add: get_staff_name_by_id_def staff_name_query_def execute_def fetchone_def)
  have nomatch: "fst (get_staff_name_by_id db staff_id s w) = None"
    if "staff_id \<noteq> PNone"
      "db ''SELECT STAFF_FIRSTNAME, STAFF_LASTNAME FROM STAFF WHERE STAFF_ID = %s'' [staff_id] =
         Inr []"
    using that
    by (cases "get_cursor s w")
      (simp_all add: get_staff_name_by_id_def staff_name_query_def execute_def fetchone_def)
  from absent found nomatch show ?thesis by blast
qed

theorem get_staff_name_by_id_result_witness:
  "get_staff_name_by_id staff_db PNone connected world1 = (None, world1) \<and>
   fst (get_staff_name_by_id staff_db (PInt 7) connected world1) =
     Some (codepoints ''Ada Lovelace'') \<and>
   fst (get_staff_name_by_id staff_db (PInt 9) connected world1) =
     Some [23665, 30000, 32, 22826, 37070] \<and>
   fst (get_staff_name_by_id staff_db (PInt 8) connected world1) = None"
proof -
  have cur: "get_cursor connected world1 = Inr 0"
    by (simp add: get_cursor_def connected_def world1_def)
  have row7: "staff_db ''SELECT STAFF_FIRSTNAME, STAFF_LASTNAME FROM STAFF WHERE STAFF_ID = %s''
      [PInt 7] = Inr ([Some (codepoints '' Ada''), Some (codepoints ''Lovelace  '')] # [])"
    by (simp add: staff_db_def)
  have row9: "staff_db ''SELECT STAFF_FIRSTNAME, STAFF_LASTNAME FROM STAFF WHERE STAFF_ID = %s''
      [PInt 9] = Inr ([Some [12288, 23665, 30000], Some [22826, 37070, 8195]] # [])"
    by (simp add: staff_db_def)
  have norow: "staff_db ''SELECT STAFF_FIRSTNAME, STAFF_LASTNAME FROM STAFF WHERE STAFF_ID = %s''
      [PInt 8] = Inr []"
    by (simp add: staff_db_def)
  have name7: "strip (format_value (Some (codepoints '' Ada'')) @ codepoints '' '' @
      format_value (Some (codepoints ''Lovelace  ''))) = codepoints ''Ada Lovelace''"
    by (simp add: strip_def isspace_def codepoints_def)
  have name9: "strip (format_value (Some [12288, 23665, 30000]) @ codepoints '' '' @
      format_value (Some [22826, 37070, 8195])) = [23665, 30000, 32, 22826, 37070]"
    by (simp add: strip_def isspace_def codepoints_def)
  from get_staff_name_by_id_result [of staff_db connected world1 "PInt 7" 0
      "Some (codepoints '' Ada'')" "Some (codepoints ''Lovelace  '')" "[]"] cur row7
  have a: "get_staff_name_by_id staff_db PNone connected world1 = (None, world1)"
    and b: "fst (get_staff_name_by_id staff_db (PInt 7) connected world1) =
      Some (codepoints ''Ada Lovelace'')"
    unfolding name7 by simp_all
  from get_staff_name_by_id_result [of staff_db connected world1 "PInt 9" 0
      "Some [12288, 23665, 30000]" "Some [22826, 37070, 8195]" "[]"] cur row9
  have c: "fst (get_staff_name_by_id staff_db (PInt 9) connected world1) =
      Some [23665, 30000, 32, 22826, 37070]"
    unfolding name9 by simp
  from get_staff_name_by_id_result [of staff_db connected world1 "PInt 8"] norow
  have d: "fst (get_staff_name_by_id staff_db (PInt 8) connected world1) = None"
    by simp
  from a b c d show ?thesis by blast
qed

text \<open>
  On a manager that never connected, and on one whose connection was closed, the id that
  selects a row yields \<^verbatim>\<open>None\<close>: \<^verbatim>\<open>get_cursor\<close>, as defined last, does not
  connect, and the handler turns its exception into \<^verbatim>\<open>None\<close>.
\<close>

theorem get_staff_name_by_id_result_counterexample:
  "staff_db ''SELECT STAFF_FIRSTNAME, STAFF_LASTNAME FROM STAFF WHERE STAFF_ID = %s'' [PInt 7] =
     Inr [[Some (codepoints '' Ada''), Some (codepoints ''Lovelace  '')]] \<and>
   fst (get_staff_name_by_id staff_db (PInt 7) init world0) = None \<and>
   fst (get_staff_name_by_id staff_db (PInt 7) connected world1_closed) = None"
  by (simp add: staff_db_def get_staff_name_by_id_def staff_name_query_def get_cursor_def
      init_def connected_def world1_closed_def)

section \<open>Failures in the lookups\<close>

text \<open>
  Claim C8 at a manager that has no connection. \<^verbatim>\<open>get_user_first_name\<close>, as the class
  defines it last, has no handler: the exception of \<^verbatim>\<open>get_cursor\<close> reaches the
  caller. (\<^verbatim>\<open>get_staff_name_by_id\<close> and the replaced first definition of
  \<^verbatim>\<open>get_user_first_name\<close> return \<^verbatim>\<open>None\<close> there.)
\<close>

theorem get_user_first_name_propagates:
  "get_user_first_name db username init w =
     (Inl (PlainException ''No active database connection.''), w)"
  by (simp add: get_user_first_name_def get_cursor_def init_def)

section \<open>What fetch_one returns\<close>

text \<open>
  Claim C10. \<^verbatim>\<open>fetch_one\<close> returns \<^verbatim>\<open>None\<close> for every query, every parameters
  and every state: either \<^verbatim>\<open>connect()\<close> raises, or \<^verbatim>\<open>self.cursor\<close> does, since a
  \<^verbatim>\<open>Database\<close> object has no attribute of that name; the handler turns both into
  \<^verbatim>\<open>None\<close>.
\<close>

theorem fetch_one_none: "fst (fetch_one env si fs drv db query params s w) = None"
proof (cases "connect env si fs drv s w")
  case (fields r s1 w1)
  then show ?thesis
    by (cases r) (simp_all add: fetch_one_def has_attribute_def instance_attributes_def
        class_attributes_def)
qed

end
